theory Spec2Isabelle
  imports Main
begin

section \<open>The connection supervisor of src/client.js\<close>

text \<open>
  The class \<open>GrassClient\<close> keeps one WebSocket alive: connect, authenticate, heartbeat,
  wait for the close event, clean up, sleep, and again. The code is event driven. Each
  method is modelled as a function of the client object (the fields of \<open>this\<close>) and of
  what the environment does while the method waits: which transport event settles a
  promise, whether a send callback reports an error, what the clock reads. Every function
  returns the updated object and the list of calls it made on the transport, the timers
  and the logger, in program order. The heartbeat callback runs while \<open>start\<close> waits, and
  other handlers run while the callback awaits a send: it is modelled step by step, from
  one await to the next, and each step reads the object as it is at that moment.
\<close>

subsection \<open>Values, errors and effects\<close>

text \<open>A JavaScript \<open>Error\<close> object: the code builds and reads only its message.\<close>

datatype error = Error string

fun message :: "error \<Rightarrow> string" where
  "message (Error m) = m"

text \<open>
  JavaScript values as they occur in the payloads: what \<open>JSON.parse\<close> yields, and
  \<open>undefined\<close> for a property that is not there. The numbers the client builds are
  integers (the unix timestamp).
\<close>

datatype jsval =
    JUndefined
  | JNull
  | JBool bool
  | JNum int
  | JStr string
  | JArr "jsval list"
  | JObj "(string \<times> jsval) list"

text \<open>
  Property access \<open>v.name\<close> on a value other than \<open>null\<close> and \<open>undefined\<close>, for a
  name that only an object's own properties can carry: \<open>undefined\<close> elsewhere.
\<close>

fun field :: "jsval \<Rightarrow> string \<Rightarrow> jsval" where
  "field (JObj fs) k = (case map_of fs k of Some v \<Rightarrow> v | None \<Rightarrow> JUndefined)"
| "field _ k = JUndefined"

datatype readyState = CONNECTING | OPEN | CLOSING | CLOSED

datatype level = INFO | WARN | ERROR

record agent_options =
  agent_protocol :: string
  agent_host :: string
  agent_port :: string
  auth :: "string option"
  rejectUnauthorized :: bool
  agent_timeout :: int
  keepAlive :: bool
  keepAliveMsecs :: int

text \<open>
  The calls the client makes on its collaborators. \<open>WsSend p\<close> is
  \<open>ws.send(JSON.stringify(p), callback)\<close>; \<open>TimerFired\<close> marks a timeout callback that
  ran; \<open>Sleep d\<close> is the awaited \<open>setTimeout(resolve, d)\<close> of the supervisor loop.
\<close>

datatype effect =
    Log level string
  | NewWebSocket string "agent_options option" int
  | WsOnce string
  | WsOn string
  | WsSend jsval
  | WsTerminate
  | WsClose
  | WsRemoveAllListeners
  | SetTimeout int
  | ClearTimeout
  | TimerFired
  | SetInterval int
  | ClearInterval
  | Sleep int

text \<open>
  The transport object, as far as the client reads it. Library behaviour taken from the
  \<open>ws\<close> package: the open event puts the socket in state OPEN, \<open>terminate()\<close> on a
  socket that is not yet closed puts it in state CLOSING, an error before the socket
  opened is emitted in state CLOSING, the close event puts it in state CLOSED. The client
  itself only ever compares the state with OPEN.
\<close>

record websocket =
  ws_url :: string
  agent :: "agent_options option"
  readyState :: readyState

definition terminate :: "websocket \<Rightarrow> websocket" where
  "terminate w = (if readyState w = CLOSED then w else w\<lparr>readyState := CLOSING\<rparr>)"

subsection \<open>The client object\<close>

text \<open>
  \<open>heartbeatInterval\<close> holds the handle \<open>setInterval\<close> returned, identified here by its
  period; \<open>ws\<close> is the transport handle. Both are \<open>null\<close> (None) when absent. Times are
  milliseconds.
\<close>

record grass_client =
  userId :: string
  proxy :: "string option"
  ws :: "websocket option"
  browserId :: string
  heartbeatInterval :: "int option"
  reconnectDelay :: int
  connectionTimeout :: int
  lastHeartbeat :: int

text \<open>
  The constructor. \<open>uuid\<close> is the value \<open>uuidv4()\<close> returns and \<open>now\<close> the value of
  \<open>Date.now()\<close> at construction.
\<close>

definition GrassClient :: "string \<Rightarrow> string option \<Rightarrow> string \<Rightarrow> int \<Rightarrow> grass_client" where
  "GrassClient uid prx uuid now =
     \<lparr>userId = uid, proxy = prx, ws = None, browserId = uuid, heartbeatInterval = None,
      reconnectDelay = 10000, connectionTimeout = 30000, lastHeartbeat = now\<rparr>"

text \<open>The template literal \<open>${this.proxy}\<close>.\<close>

fun showProxy :: "string option \<Rightarrow> string" where
  "showProxy None = ''null''"
| "showProxy (Some p) = p"

subsection \<open>sendMessage\<close>

text \<open>
  What happens to one \<open>ws.send\<close>: the callback runs without an error, the callback runs
  with an error, or the callback has not run when the 10 second timer fires.
\<close>

datatype send_outcome = SendDone | SendFailed error | SendNoCallback

definition sendMessage :: "grass_client \<Rightarrow> jsval \<Rightarrow> send_outcome \<Rightarrow> (error + unit) \<times> effect list" where
  "sendMessage c payload outcome =
     (case ws c of
        None \<Rightarrow> (Inl (Error ''WebSocket not connected''), [])
      | Some w \<Rightarrow>
          if readyState w \<noteq> OPEN then (Inl (Error ''WebSocket not connected''), [])
          else (case outcome of
                  SendDone \<Rightarrow> (Inr (), [SetTimeout 10000, WsSend payload, ClearTimeout])
                | SendFailed e \<Rightarrow> (Inl e, [SetTimeout 10000, WsSend payload, ClearTimeout])
                | SendNoCallback \<Rightarrow>
                    (Inl (Error ''Send message timeout''),
                     [SetTimeout 10000, WsSend payload, TimerFired])))"

subsection \<open>cleanup\<close>

definition cleanup :: "grass_client \<Rightarrow> grass_client \<times> effect list" where
  "cleanup c =
     (let (c1, fx1) = (case heartbeatInterval c of
                         Some h \<Rightarrow> (c\<lparr>heartbeatInterval := None\<rparr>, [ClearInterval])
                       | None \<Rightarrow> (c, []))
      in case ws c1 of
           Some w \<Rightarrow>
             (c1\<lparr>ws := None\<rparr>,
              fx1 @ [WsRemoveAllListeners] @ (if readyState w = OPEN then [WsClose] else []))
         | None \<Rightarrow> (c1, fx1))"

subsection \<open>Library functions the client calls\<close>

text \<open>
  \<open>new URL(s)\<close>, \<open>decodeURIComponent\<close> and \<open>JSON.parse\<close> belong to the platform, not
  to this repository: they are parameters of the model. Each either throws (Inl, with the
  error it throws) or returns a value. A component of a URL that is not there reads as the
  empty string, as in JavaScript.
\<close>

record parsed_url =
  protocol :: string
  hostname :: string
  port :: string
  username :: string
  password :: string

record platform =
  parseURL :: "string \<Rightarrow> error + parsed_url"
  decodeURIComponent :: "string \<Rightarrow> error + string"
  jsonParse :: "string \<Rightarrow> error + jsval"

subsection \<open>connect\<close>

text \<open>
  The \<open>auth\<close> option: \<open>username && password ? decoded(username):decoded(password) :
  undefined\<close>. A string is truthy when it is not empty.
\<close>

definition proxyAuth :: "platform \<Rightarrow> parsed_url \<Rightarrow> error + string option" where
  "proxyAuth lib u =
     (if username u \<noteq> [] \<and> password u \<noteq> [] then
        (case decodeURIComponent lib (username u) of
           Inl e \<Rightarrow> Inl e
         | Inr un \<Rightarrow>
             (case decodeURIComponent lib (password u) of
                Inl e \<Rightarrow> Inl e
              | Inr pw \<Rightarrow> Inr (Some (un @ '':'' @ pw))))
      else Inr None)"

text \<open>
  The \<open>if (this.proxy) { try ... catch ... }\<close> block: no agent for a \<open>null\<close> or empty
  proxy; otherwise the agent options, or the rethrown error.
\<close>

definition proxyAgent :: "platform \<Rightarrow> grass_client \<Rightarrow> error + agent_options option" where
  "proxyAgent lib c =
     (case proxy c of
        None \<Rightarrow> Inr None
      | Some p \<Rightarrow>
          if p = [] then Inr None
          else (case parseURL lib p of
                  Inl e \<Rightarrow> Inl (Error (''Invalid proxy URL: '' @ message e))
                | Inr u \<Rightarrow>
                    (case proxyAuth lib u of
                       Inl e \<Rightarrow> Inl (Error (''Invalid proxy URL: '' @ message e))
                     | Inr a \<Rightarrow>
                         Inr (Some \<lparr>agent_protocol = protocol u, agent_host = hostname u,
                                    agent_port = port u, auth = a, rejectUnauthorized = False,
                                    agent_timeout = connectionTimeout c, keepAlive = True,
                                    keepAliveMsecs = 30000\<rparr>))))"

text \<open>
  What settles the promise of \<open>connect\<close>: the open event (with the clock reading at which
  it fires), an error event before the socket opened, or the connect timer, which fires
  when neither event came within \<open>connectionTimeout\<close>.
\<close>

datatype connect_event = OpenEvent int | ErrorEvent error | ConnectTimerFires

definition connect ::
  "platform \<Rightarrow> grass_client \<Rightarrow> connect_event \<Rightarrow> (error + unit) \<times> grass_client \<times> effect list" where
  "connect lib c ev =
     (case proxyAgent lib c of
        Inl e \<Rightarrow> (Inl e, c, [])
      | Inr ag \<Rightarrow>
          (let w = \<lparr>ws_url = ''wss://proxy2.wynd.network:4650'', agent = ag,
                    readyState = CONNECTING\<rparr>;
               fx = [NewWebSocket (ws_url w) ag (connectionTimeout c),
                     SetTimeout (connectionTimeout c), WsOnce ''open'', WsOnce ''error'']
           in case ev of
                OpenEvent t \<Rightarrow>
                  (Inr (), c\<lparr>ws := Some (w\<lparr>readyState := OPEN\<rparr>)\<rparr>,
                   fx @ [ClearTimeout, Log INFO (''Connected via proxy: '' @ showProxy (proxy c))])
              | ErrorEvent e \<Rightarrow>
                  (Inl e, c\<lparr>ws := Some (w\<lparr>readyState := CLOSING\<rparr>)\<rparr>, fx @ [ClearTimeout])
              | ConnectTimerFires \<Rightarrow>
                  (Inl (Error ''Connection timeout''), c\<lparr>ws := Some (terminate w)\<rparr>,
                   fx @ [TimerFired, WsTerminate])))"

subsection \<open>authenticate and sendAuthPayload\<close>

definition authPayload :: "grass_client \<Rightarrow> jsval \<Rightarrow> int \<Rightarrow> jsval" where
  "authPayload c authId now =
     JObj [(''id'', authId),
           (''origin_action'', JStr ''AUTH''),
           (''result'', JObj
              [(''browser_id'', JStr (browserId c)),
               (''user_id'', JStr (userId c)),
               (''user_agent'', JStr ''Mozilla/5.0 (Windows NT 10.0; Win64; x64) AppleWebKit/537.36 (KHTML, like Gecko) Chrome/114.0.0.0 Safari/537.36''),
               (''timestamp'', JNum (now div 1000)),
               (''device_type'', JStr ''desktop''),
               (''version'', JStr ''4.28.1'')])]"

text \<open>\<open>now\<close> is the value of \<open>Date.now()\<close> when the payload is built.\<close>

definition sendAuthPayload ::
  "grass_client \<Rightarrow> jsval \<Rightarrow> int \<Rightarrow> send_outcome \<Rightarrow> (error + unit) \<times> effect list" where
  "sendAuthPayload c authId now outcome = sendMessage c (authPayload c authId now) outcome"

text \<open>
  \<open>response.id\<close>: a TypeError on \<open>null\<close> (its text is the engine's), the property of an
  object, \<open>undefined\<close> on every other value.
\<close>

fun responseId :: "jsval \<Rightarrow> error + jsval" where
  "responseId JNull = Inl (Error ''Cannot read properties of null (reading 'id')'')"
| "responseId JUndefined = Inl (Error ''Cannot read properties of undefined (reading 'id')'')"
| "responseId v = Inr (field v ''id'')"

text \<open>
  What settles the promise of \<open>authenticate\<close>: the first message (its text, the clock
  reading when it is handled, and what becomes of the send that answers it), or the
  authentication timer.
\<close>

datatype auth_event = MessageEvent string int send_outcome | AuthTimerFires

definition authFailed :: "error \<Rightarrow> error" where
  "authFailed e = Error (''Authentication failed: '' @ message e)"

definition authenticate ::
  "platform \<Rightarrow> grass_client \<Rightarrow> auth_event \<Rightarrow> (error + unit) \<times> effect list" where
  "authenticate lib c ev =
     (case ws c of
        None \<Rightarrow>
          (Inl (Error ''Cannot read properties of null (reading 'once')''),
           [SetTimeout (connectionTimeout c)])
      | Some w \<Rightarrow>
          (let fx = [SetTimeout (connectionTimeout c), WsOnce ''message''] in
           case ev of
             AuthTimerFires \<Rightarrow> (Inl (Error ''Authentication timeout''), fx @ [TimerFired])
           | MessageEvent data now outcome \<Rightarrow>
               (case jsonParse lib data of
                  Inl e \<Rightarrow> (Inl (authFailed e), fx @ [ClearTimeout])
                | Inr response \<Rightarrow>
                    (case responseId response of
                       Inl e \<Rightarrow> (Inl (authFailed e), fx @ [ClearTimeout])
                     | Inr authId \<Rightarrow>
                         (case sendAuthPayload c authId now outcome of
                            (Inl e, fx2) \<Rightarrow> (Inl (authFailed e), fx @ [ClearTimeout] @ fx2)
                          | (Inr u, fx2) \<Rightarrow>
                              (Inr (), fx @ [ClearTimeout] @ fx2 @
                                 [Log INFO ''Authentication successful'']))))))"


subsection \<open>The heartbeat\<close>

definition startHeartbeat :: "grass_client \<Rightarrow> grass_client \<times> effect list" where
  "startHeartbeat c =
     (c\<lparr>heartbeatInterval := Some 30000\<rparr>,
      (case heartbeatInterval c of Some h \<Rightarrow> [ClearInterval] | None \<Rightarrow> []) @ [SetInterval 30000])"

definition pingPayload :: "string \<Rightarrow> jsval" where
  "pingPayload uuid = JObj [(''id'', JStr uuid), (''action'', JStr ''PING''), (''data'', JObj [])]"

definition pongPayload :: jsval where
  "pongPayload = JObj [(''id'', JStr ''F3X''), (''origin_action'', JStr ''PONG'')]"

text \<open>\<open>this.ws?.terminate()\<close>.\<close>

definition terminateWs :: "grass_client \<Rightarrow> grass_client \<times> effect list" where
  "terminateWs c =
     (case ws c of
        Some w \<Rightarrow> (c\<lparr>ws := Some (terminate w)\<rparr>, [WsTerminate])
      | None \<Rightarrow> (c, []))"

text \<open>The \<open>catch\<close> handler of the callback.\<close>

definition heartbeatFailed :: "grass_client \<Rightarrow> error \<Rightarrow> grass_client \<times> effect list" where
  "heartbeatFailed c e =
     (let (c1, fx) = terminateWs c
      in (c1, [Log ERROR (''Heartbeat failed: '' @ message e)] @ fx))"

text \<open>
  \<open>sendMessage\<close> in its two steps. \<open>sendBegin\<close> is the executor of the promise, which
  runs when \<open>sendMessage\<close> is called: it rejects at once (Inl), or arms the timer and hands
  the payload to the transport (Inr), and the promise is pending. \<open>sendEnd\<close> is the
  settlement of a pending promise, by the send callback or by the timer.
\<close>

definition sendBegin :: "grass_client \<Rightarrow> jsval \<Rightarrow> (error + unit) \<times> effect list" where
  "sendBegin c payload =
     (case ws c of
        None \<Rightarrow> (Inl (Error ''WebSocket not connected''), [])
      | Some w \<Rightarrow>
          if readyState w \<noteq> OPEN then (Inl (Error ''WebSocket not connected''), [])
          else (Inr (), [SetTimeout 10000, WsSend payload]))"

fun sendEnd :: "send_outcome \<Rightarrow> (error + unit) \<times> effect list" where
  "sendEnd SendDone = (Inr (), [ClearTimeout])"
| "sendEnd (SendFailed e) = (Inl e, [ClearTimeout])"
| "sendEnd SendNoCallback = (Inl (Error ''Send message timeout''), [TimerFired])"

text \<open>
  Where a run of the interval callback stands while it awaits a send: at the \<open>await\<close> of
  the ping or at the \<open>await\<close> of the pong acknowledgment. It keeps the clock reading
  \<open>now\<close> that the callback took when it started.
\<close>

datatype tick_state = AwaitPing int | AwaitPong int

text \<open>
  The interval callback from its start to its first \<open>await\<close>, or to its end when it
  does not get that far. \<open>now\<close> is the value of \<open>Date.now()\<close> it reads, \<open>uuid\<close> the value
  \<open>uuidv4()\<close> returns for the ping. The third component is None when the callback has
  returned.
\<close>

definition heartbeatTick ::
  "grass_client \<Rightarrow> int \<Rightarrow> string \<Rightarrow> grass_client \<times> effect list \<times> tick_state option" where
  "heartbeatTick c now uuid =
     (case ws c of
        None \<Rightarrow> (c, [], None)
      | Some w \<Rightarrow>
          if readyState w = OPEN then
            (if now - lastHeartbeat c > 45000 then
               (let (c1, fx) = terminateWs c
                in (c1, [Log WARN ''Heartbeat timeout, reconnecting...''] @ fx, None))
             else
               (case sendBegin c (pingPayload uuid) of
                  (Inl e, fx1) \<Rightarrow>
                    (let (c1, fx) = heartbeatFailed c e in (c1, fx1 @ fx, None))
                | (Inr u, fx1) \<Rightarrow> (c, fx1, Some (AwaitPing now))))
          else (c, [], None))"

text \<open>
  The callback from the settlement of the send it awaits to its next \<open>await\<close> or to its
  end. \<open>c\<close> is the object at that moment: other handlers may have run since the send
  began, and the callback reads \<open>this.ws\<close> again.
\<close>

fun heartbeatResume ::
  "grass_client \<Rightarrow> tick_state \<Rightarrow> send_outcome \<Rightarrow> grass_client \<times> effect list \<times> tick_state option" where
  "heartbeatResume c (AwaitPing now) out =
     (case sendEnd out of
        (Inl e, fx1) \<Rightarrow> (let (c1, fx) = heartbeatFailed c e in (c1, fx1 @ fx, None))
      | (Inr u, fx1) \<Rightarrow>
          (case sendBegin c pongPayload of
             (Inl e, fx2) \<Rightarrow>
               (let (c1, fx) = heartbeatFailed c e in (c1, fx1 @ fx2 @ fx, None))
           | (Inr u, fx2) \<Rightarrow> (c, fx1 @ fx2, Some (AwaitPong now))))"
| "heartbeatResume c (AwaitPong now) out =
     (case sendEnd out of
        (Inl e, fx1) \<Rightarrow> (let (c1, fx) = heartbeatFailed c e in (c1, fx1 @ fx, None))
      | (Inr u, fx1) \<Rightarrow> (c\<lparr>lastHeartbeat := now\<rparr>, fx1, None))"

subsection \<open>The supervisor loop\<close>

text \<open>
  What reaches the client while \<open>start\<close> awaits the close event: the interval timer fires
  (with the clock reading and the id of the ping), the oldest pending send of a heartbeat
  callback settles, a pong frame arrives (with the clock reading), the library moves the
  socket to another state, or the close event is emitted.
\<close>

datatype wait_event =
    TickEvent int string
  | SendSettled send_outcome
  | PongEvent int
  | SocketState readyState
  | CloseEvent

text \<open>The callbacks that await a send, oldest first, joined by one that has just begun to.\<close>

fun joined :: "tick_state list \<Rightarrow> tick_state option \<Rightarrow> tick_state list" where
  "joined ps None = ps"
| "joined ps (Some p) = ps @ [p]"

text \<open>
  The awaited promise resolves at the first close event. When the events run out and no
  close event came, the promise stays pending: the result is None. Otherwise the result
  is the object, the callbacks that still await a send, and the effects.
\<close>

fun awaitClose ::
  "grass_client \<Rightarrow> tick_state list \<Rightarrow> wait_event list \<Rightarrow>
     (grass_client \<times> tick_state list \<times> effect list) option" where
  "awaitClose c ps [] = None"
| "awaitClose c ps (CloseEvent # evs) =
     Some (c\<lparr>ws := map_option (\<lambda>w. w\<lparr>readyState := CLOSED\<rparr>) (ws c)\<rparr>, ps,
           [Log WARN (''Connection closed for proxy: '' @ showProxy (proxy c))])"
| "awaitClose c ps (PongEvent t # evs) = awaitClose (c\<lparr>lastHeartbeat := t\<rparr>) ps evs"
| "awaitClose c ps (SocketState rs # evs) =
     awaitClose (c\<lparr>ws := map_option (\<lambda>w. w\<lparr>readyState := rs\<rparr>) (ws c)\<rparr>) ps evs"
| "awaitClose c ps (TickEvent now uuid # evs) =
     (let (c1, fx1, p) = heartbeatTick c now uuid
      in case awaitClose c1 (joined ps p) evs of
           None \<Rightarrow> None
         | Some (c2, ps2, fx2) \<Rightarrow> Some (c2, ps2, fx1 @ fx2))"
| "awaitClose c [] (SendSettled out # evs) = awaitClose c [] evs"
| "awaitClose c (p # ps) (SendSettled out # evs) =
     (let (c1, fx1, q) = heartbeatResume c p out
      in case awaitClose c1 (joined ps q) evs of
           None \<Rightarrow> None
         | Some (c2, ps2, fx2) \<Rightarrow> Some (c2, ps2, fx1 @ fx2))"

text \<open>
  After \<open>cleanup()\<close> no listener and no interval is left, but a callback that awaits a
  send still resumes when the send settles. \<open>settle\<close> runs these settlements in order.
\<close>

fun settle ::
  "grass_client \<Rightarrow> tick_state list \<Rightarrow> send_outcome list \<Rightarrow>
     grass_client \<times> tick_state list \<times> effect list" where
  "settle c ps [] = (c, ps, [])"
| "settle c [] (out # outs) = (c, [], [])"
| "settle c (p # ps) (out # outs) =
     (let (c1, fx1, q) = heartbeatResume c p out;
          (c2, ps2, fx2) = settle c1 (joined ps q) outs
      in (c2, ps2, fx1 @ fx2))"

text \<open>
  What the environment does during one iteration of the loop. \<open>sleepEvs\<close> are the
  outcomes of the sends that are still pending when the iteration reaches its delay.
\<close>

record scenario =
  connectEv :: connect_event
  authEv :: auth_event
  waitEvs :: "wait_event list"
  sleepEvs :: "send_outcome list"

text \<open>
  The body of the \<open>try\<close> block: the error it throws (Inl) or its normal end (Inr, with the
  heartbeat callbacks that still await a send), the object and the effects so far; None
  when it waits for ever.
\<close>

definition tryBody ::
  "platform \<Rightarrow> grass_client \<Rightarrow> scenario \<Rightarrow>
     ((error + tick_state list) \<times> grass_client \<times> effect list) option" where
  "tryBody lib c sc =
     (case connect lib c (connectEv sc) of
        (Inl e, c1, fx1) \<Rightarrow> Some (Inl e, c1, fx1)
      | (Inr u, c1, fx1) \<Rightarrow>
          (case authenticate lib c1 (authEv sc) of
             (Inl e, fx2) \<Rightarrow> Some (Inl e, c1, fx1 @ fx2)
           | (Inr u, fx2) \<Rightarrow>
               (let (c2, fx3) = startHeartbeat c1 in
                case ws c2 of
                  None \<Rightarrow>
                    Some (Inl (Error ''Cannot read properties of null (reading 'once')''), c2,
                          fx1 @ fx2 @ fx3)
                | Some w \<Rightarrow>
                    (case awaitClose c2 [] (waitEvs sc) of
                       None \<Rightarrow> None
                     | Some (c3, ps, fx4) \<Rightarrow>
                         Some (Inr ps, c3,
                               fx1 @ fx2 @ fx3 @ [WsOnce ''close'', WsOn ''pong''] @ fx4)))))"

text \<open>
  One iteration of \<open>while (true)\<close>: the \<open>try\<close> block, then either the rest of the block
  or the \<open>catch\<close> handler. Both end with \<open>cleanup()\<close> and the awaited delay. A send that
  is pending when the delay begins settles before the delay ends, since its timer of 10
  seconds was armed first: with the outcome the scenario gives, or else by its timer.
\<close>

definition cycle ::
  "platform \<Rightarrow> grass_client \<Rightarrow> scenario \<Rightarrow> (grass_client \<times> effect list) option" where
  "cycle lib c sc =
     (case tryBody lib c sc of
        None \<Rightarrow> None
      | Some (Inr ps, c1, fx) \<Rightarrow>
          (let (c2, fx2) = cleanup c1;
               (c3, ps3, fx3) =
                 settle c2 ps (sleepEvs sc @ replicate (2 * length ps) SendNoCallback)
           in Some (c3, fx @ fx2 @ [Sleep (reconnectDelay c2)] @ fx3))
      | Some (Inl e, c1, fx) \<Rightarrow>
          (let (c2, fx2) = cleanup c1
           in Some (c2, fx @ [Log ERROR (''Connection error: '' @ message e)] @ fx2 @
                        [Sleep (reconnectDelay c2)])))"


text \<open>Projections of a trace of effects.\<close>

fun sends :: "effect list \<Rightarrow> jsval list" where
  "sends [] = []"
| "sends (WsSend p # fx) = p # sends fx"
| "sends (_ # fx) = sends fx"


fun errorLogs :: "effect list \<Rightarrow> string list" where
  "errorLogs [] = []"
| "errorLogs (Log ERROR m # fx) = m # errorLogs fx"
| "errorLogs (_ # fx) = errorLogs fx"



subsection \<open>Sample inputs\<close>

text \<open>
  A platform for the examples. On the strings the examples use it answers as the real
  functions do: \<open>new URL\<close> reads a user name and no password in
  \<open>http://user@host:8080\<close>, and both in \<open>http://user:pw@host:8080\<close>;
  \<open>decodeURIComponent\<close> returns a string without escapes as it is.
\<close>

definition samplePlatform :: platform where
  \<open>samplePlatform =
     \<lparr>parseURL = (\<lambda>s. if s = ''http://user@host:8080''
                      then Inr \<lparr>protocol = ''http:'', hostname = ''host'', port = ''8080'',
                                username = ''user'', password = []\<rparr>
                      else if s = ''http://user:pw@host:8080''
                      then Inr \<lparr>protocol = ''http:'', hostname = ''host'', port = ''8080'',
                                username = ''user'', password = ''pw''\<rparr>
                      else Inl (Error ''Invalid URL'')),
      decodeURIComponent = Inr,
      jsonParse = (\<lambda>s. if s = ''{"id":"abc123"}'' then Inr (JObj [(''id'', JStr ''abc123'')])
                       else Inl (Error ''Unexpected token''))\<rparr>\<close>

text \<open>A client built at clock reading 1000, without a proxy and with one.\<close>

definition sampleClient :: grass_client where
  "sampleClient = GrassClient ''user-1'' None ''browser-1'' 1000"

definition proxiedClient :: grass_client where
  "proxiedClient = GrassClient ''user-1'' (Some ''http://user@host:8080'') ''browser-1'' 1000"

text \<open>The same client once connected, with the heartbeat running.\<close>

definition openSocket :: websocket where
  "openSocket = \<lparr>ws_url = ''wss://proxy2.wynd.network:4650'', agent = None, readyState = OPEN\<rparr>"

definition openClient :: grass_client where
  "openClient = sampleClient\<lparr>ws := Some openSocket, heartbeatInterval := Some 30000\<rparr>"



text \<open>
  A session in which the heartbeat works: the socket opens at 2000, the challenge is
  answered at 3000, the tick at 33000 sends ping and pong acknowledgment, and the server
  closes the connection.
\<close>

definition firstSession :: scenario where
  \<open>firstSession =
     \<lparr>connectEv = OpenEvent 2000,
      authEv = MessageEvent ''{"id":"abc123"}'' 3000 SendDone,
      waitEvs = [TickEvent 33000 ''ping-1'', SendSettled SendDone, SendSettled SendDone,
                 CloseEvent],
      sleepEvs = []\<rparr>\<close>

text \<open>
  The session after it: the delay of 10 seconds has passed, the socket opens at 61000,
  the challenge is answered at 62000, the first tick comes 30 seconds later.
\<close>

definition secondSession :: scenario where
  \<open>secondSession =
     \<lparr>connectEv = OpenEvent 61000,
      authEv = MessageEvent ''{"id":"abc123"}'' 62000 SendDone,
      waitEvs = [TickEvent 92000 ''ping-2'', CloseEvent],
      sleepEvs = []\<rparr>\<close>



section \<open>Properties\<close>

subsection \<open>Traces and fields that the methods leave alone\<close>



text \<open>The two steps of \<open>sendMessage\<close> make up the whole.\<close>

lemma sendMessage_steps:
  "sendMessage c p out =
     (case sendBegin c p of
        (Inl e, fx) \<Rightarrow> (Inl e, fx)
      | (Inr u, fx) \<Rightarrow> (fst (sendEnd out), fx @ snd (sendEnd out)))"
  by (cases out) (simp_all add: sendMessage_def sendBegin_def split: option.splits)












lemma heartbeatFailed_eq:
  "heartbeatFailed c e =
     (fst (terminateWs c), Log ERROR (''Heartbeat failed: '' @ message e) # snd (terminateWs c))"
  by (simp add: heartbeatFailed_def split: prod.splits)
















subsection \<open>The sample inputs, evaluated\<close>

lemma sample_fields:
  "ws sampleClient = None \<and> reconnectDelay sampleClient = 10000 \<and>
   connectionTimeout sampleClient = 30000 \<and> lastHeartbeat sampleClient = 1000 \<and>
   ws openClient = Some openSocket \<and> readyState openSocket = OPEN \<and>
   lastHeartbeat openClient = 1000 \<and> userId openClient = ''user-1'' \<and>
   proxy proxiedClient = Some ''http://user@host:8080''"
  by (simp add: sampleClient_def openClient_def openSocket_def proxiedClient_def GrassClient_def)

lemma sample_connect_open:
  "connect samplePlatform sampleClient (OpenEvent 5000) =
     (Inr (), sampleClient\<lparr>ws := Some openSocket\<rparr>,
      [NewWebSocket ''wss://proxy2.wynd.network:4650'' None 30000, SetTimeout 30000,
       WsOnce ''open'', WsOnce ''error'', ClearTimeout, Log INFO ''Connected via proxy: null''])"
  by (simp add: connect_def proxyAgent_def sampleClient_def openSocket_def GrassClient_def)




lemma sample_first_session:
  "cycle samplePlatform sampleClient firstSession =
     Some (sampleClient\<lparr>lastHeartbeat := 33000\<rparr>,
       [NewWebSocket ''wss://proxy2.wynd.network:4650'' None 30000, SetTimeout 30000,
        WsOnce ''open'', WsOnce ''error'', ClearTimeout, Log INFO ''Connected via proxy: null'',
        SetTimeout 30000, WsOnce ''message'', ClearTimeout, SetTimeout 10000,
        WsSend (authPayload sampleClient (JStr ''abc123'') 3000), ClearTimeout,
        Log INFO ''Authentication successful'', SetInterval 30000,
        WsOnce ''close'', WsOn ''pong'',
        SetTimeout 10000, WsSend (pingPayload ''ping-1''), ClearTimeout,
        SetTimeout 10000, WsSend pongPayload, ClearTimeout,
        Log WARN ''Connection closed for proxy: null'',
        ClearInterval, WsRemoveAllListeners, Sleep 10000])"
  by (simp add: firstSession_def cycle_def tryBody_def connect_def proxyAgent_def
      sampleClient_def GrassClient_def cleanup_def authenticate_def samplePlatform_def
      sendAuthPayload_def sendMessage_def authPayload_def startHeartbeat_def
      heartbeatTick_def sendBegin_def)

lemma sample_second_session:
  "cycle samplePlatform (sampleClient\<lparr>lastHeartbeat := 33000\<rparr>) secondSession =
     Some (sampleClient\<lparr>lastHeartbeat := 33000\<rparr>,
       [NewWebSocket ''wss://proxy2.wynd.network:4650'' None 30000, SetTimeout 30000,
        WsOnce ''open'', WsOnce ''error'', ClearTimeout, Log INFO ''Connected via proxy: null'',
        SetTimeout 30000, WsOnce ''message'', ClearTimeout, SetTimeout 10000,
        WsSend (authPayload sampleClient (JStr ''abc123'') 62000), ClearTimeout,
        Log INFO ''Authentication successful'', SetInterval 30000,
        WsOnce ''close'', WsOn ''pong'',
        Log WARN ''Heartbeat timeout, reconnecting...'', WsTerminate,
        Log WARN ''Connection closed for proxy: null'',
        ClearInterval, WsRemoveAllListeners, Sleep 10000])"
  by (simp add: secondSession_def cycle_def tryBody_def connect_def proxyAgent_def
      sampleClient_def GrassClient_def cleanup_def authenticate_def samplePlatform_def
      sendAuthPayload_def sendMessage_def authPayload_def startHeartbeat_def
      heartbeatTick_def terminateWs_def terminate_def)



subsection \<open>connect and the liveness timestamp\<close>

text \<open>
  Claim C1 says that a successful \<open>connect\<close> records the moment of opening as the liveness
  timestamp. The code does not: \<open>connect\<close> has no assignment to \<open>lastHeartbeat\<close>, and the
  staleness test of the heartbeat measures from the construction of the client or from the
  session before. A client built at clock reading 1000 whose socket opens at 5000 has the
  timestamp 1000 when \<open>connect\<close> has resolved. After a first session whose last heartbeat
  was at 33000, the second session opens at 61000 with the timestamp still 33000: its
  first tick, at 92000, finds 59 seconds elapsed and terminates the new transport, which
  has sent nothing but the answer to the challenge, and the timestamp stays 33000 for the
  session after it.
\<close>

theorem connect_leaves_liveness_stale:
  "fst (connect samplePlatform sampleClient (OpenEvent 5000)) = Inr () \<and>
   lastHeartbeat (fst (snd (connect samplePlatform sampleClient (OpenEvent 5000)))) = 1000 \<and>
   map_option fst (cycle samplePlatform sampleClient firstSession) =
     Some (sampleClient\<lparr>lastHeartbeat := 33000\<rparr>) \<and>
   cycle samplePlatform (sampleClient\<lparr>lastHeartbeat := 33000\<rparr>) secondSession =
     Some (sampleClient\<lparr>lastHeartbeat := 33000\<rparr>,
       [NewWebSocket ''wss://proxy2.wynd.network:4650'' None 30000, SetTimeout 30000,
        WsOnce ''open'', WsOnce ''error'', ClearTimeout, Log INFO ''Connected via proxy: null'',
        SetTimeout 30000, WsOnce ''message'', ClearTimeout, SetTimeout 10000,
        WsSend (authPayload sampleClient (JStr ''abc123'') 62000), ClearTimeout,
        Log INFO ''Authentication successful'', SetInterval 30000,
        WsOnce ''close'', WsOn ''pong'',
        Log WARN ''Heartbeat timeout, reconnecting...'', WsTerminate,
        Log WARN ''Connection closed for proxy: null'',
        ClearInterval, WsRemoveAllListeners, Sleep 10000])"
  by (simp add: sample_connect_open sample_fields sample_first_session sample_second_session)

subsection \<open>Proxy credentials\<close>

text \<open>
  Claim C2 says that a proxy URL with only one of user name and password makes \<open>connect\<close>
  fail before any connection attempt. The code tests \<open>username && password\<close> and passes
  \<open>auth: undefined\<close> when the test fails. For \<open>http://user@host:8080\<close> the agent is built
  without credentials and \<open>connect\<close> resolves when the socket opens.
\<close>

theorem proxy_one_credential_counterexample:
  "parseURL samplePlatform ''http://user@host:8080'' =
     Inr \<lparr>protocol = ''http:'', hostname = ''host'', port = ''8080'', username = ''user'',
          password = []\<rparr> \<and>
   proxyAgent samplePlatform proxiedClient =
     Inr (Some \<lparr>agent_protocol = ''http:'', agent_host = ''host'', agent_port = ''8080'',
                auth = None, rejectUnauthorized = False, agent_timeout = 30000,
                keepAlive = True, keepAliveMsecs = 30000\<rparr>) \<and>
   fst (connect samplePlatform proxiedClient (OpenEvent 5000)) = Inr ()"
  by (simp add: connect_def proxyAgent_def proxyAuth_def proxiedClient_def GrassClient_def
      samplePlatform_def)

text \<open>
  Claim C2, as the code has it: when the user name or the password of the proxy URL is
  missing, the agent is built with no credentials and \<open>connect\<close> goes on to open the
  transport through it; credentials are passed to the agent only when both are there.
\<close>

theorem proxy_one_credential_no_auth:
  assumes "proxy c = Some p" and "p \<noteq> []" and "parseURL lib p = Inr u"
    and "username u = [] \<or> password u = []"
  shows "proxyAgent lib c =
           Inr (Some \<lparr>agent_protocol = protocol u, agent_host = hostname u,
                      agent_port = port u, auth = None, rejectUnauthorized = False,
                      agent_timeout = connectionTimeout c, keepAlive = True,
                      keepAliveMsecs = 30000\<rparr>) \<and>
         hd (snd (snd (connect lib c ev))) =
           NewWebSocket ''wss://proxy2.wynd.network:4650''
             (Some \<lparr>agent_protocol = protocol u, agent_host = hostname u,
                     agent_port = port u, auth = None, rejectUnauthorized = False,
                     agent_timeout = connectionTimeout c, keepAlive = True,
                     keepAliveMsecs = 30000\<rparr>)
             (connectionTimeout c) \<and>
         (proxyAuth lib u' = Inr (Some a) \<longrightarrow> username u' \<noteq> [] \<and> password u' \<noteq> [])"
  using assms
  by (auto simp: connect_def proxyAgent_def proxyAuth_def Let_def split: connect_event.splits)

theorem proxy_one_credential_no_auth_witness:
  "proxy proxiedClient = Some ''http://user@host:8080'' \<and>
   parseURL samplePlatform ''http://user@host:8080'' =
     Inr \<lparr>protocol = ''http:'', hostname = ''host'', port = ''8080'', username = ''user'',
          password = []\<rparr> \<and>
   proxyAgent samplePlatform proxiedClient =
     Inr (Some \<lparr>agent_protocol = ''http:'', agent_host = ''host'', agent_port = ''8080'',
                auth = None, rejectUnauthorized = False, agent_timeout = 30000,
                keepAlive = True, keepAliveMsecs = 30000\<rparr>) \<and>
   proxyAuth samplePlatform
     \<lparr>protocol = ''http:'', hostname = ''host'', port = ''8080'', username = ''user'',
      password = ''pw''\<rparr> = Inr (Some ''user:pw'')"
proof -
  have h1: "proxy proxiedClient = Some ''http://user@host:8080''"
    using sample_fields by simp
  have h2: "''http://user@host:8080'' \<noteq> []" by simp
  have h3: "parseURL samplePlatform ''http://user@host:8080'' =
     Inr \<lparr>protocol = ''http:'', hostname = ''host'', port = ''8080'', username = ''user'',
          password = []\<rparr>"
    by (simp add: samplePlatform_def)
  have h4: "username \<lparr>protocol = ''http:'', hostname = ''host'', port = ''8080'',
              username = ''user'', password = []\<rparr> = [] \<or>
            password \<lparr>protocol = ''http:'', hostname = ''host'', port = ''8080'',
              username = ''user'', password = []\<rparr> = []"
    by simp
  have h5: "proxyAuth samplePlatform
     \<lparr>protocol = ''http:'', hostname = ''host'', port = ''8080'', username = ''user'',
      password = ''pw''\<rparr> = Inr (Some ''user:pw'')"
    by (simp add: proxyAuth_def samplePlatform_def)
  show ?thesis
    using h1 h3 h5 proxy_one_credential_no_auth [OF h1 h2 h3 h4, of ConnectTimerFires
        "\<lparr>protocol = ''http:'', hostname = ''host'', port = ''8080'', username = ''user'',
          password = ''pw''\<rparr>" "''user:pw''"]
    by (simp add: proxiedClient_def GrassClient_def)
qed

subsection \<open>The supervisor loop and the errors of an iteration\<close>




subsection \<open>The heartbeat callback\<close>

text \<open>
  Claim C4. A tick that finds the transport open and the liveness timestamp more than
  45 seconds old logs the warning and terminates the transport, and does nothing else:
  it sends no message, leaves the timestamp as it was, and has returned.
\<close>

theorem tick_stale_terminates:
  assumes "ws c = Some w" and "readyState w = OPEN" and "now - lastHeartbeat c > 45000"
  shows "heartbeatTick c now uuid =
           (c\<lparr>ws := Some (w\<lparr>readyState := CLOSING\<rparr>)\<rparr>,
            [Log WARN ''Heartbeat timeout, reconnecting...'', WsTerminate], None) \<and>
         sends (fst (snd (heartbeatTick c now uuid))) = [] \<and>
         lastHeartbeat (fst (heartbeatTick c now uuid)) = lastHeartbeat c"
  using assms by (simp add: heartbeatTick_def terminateWs_def terminate_def)

theorem tick_stale_terminates_witness:
  "ws openClient = Some openSocket \<and> readyState openSocket = OPEN \<and>
   50000 - lastHeartbeat openClient > 45000 \<and>
   heartbeatTick openClient 50000 ''ping-1'' =
     (openClient\<lparr>ws := Some (openSocket\<lparr>readyState := CLOSING\<rparr>)\<rparr>,
      [Log WARN ''Heartbeat timeout, reconnecting...'', WsTerminate], None)"
proof -
  have h1: "ws openClient = Some openSocket" using sample_fields by simp
  have h2: "readyState openSocket = OPEN" using sample_fields by simp
  have h3: "50000 - lastHeartbeat openClient > 45000" using sample_fields by simp
  show ?thesis
    using h1 h2 h3 tick_stale_terminates [OF h1 h2 h3, of "''ping-1''"]
    by simp
qed

text \<open>
  Claim C5 says that every tick that finds the transport open and the timestamp fresh
  sends exactly two messages. The second send is behind the \<open>await\<close> of the first: when
  the first send fails, the pong acknowledgment is never sent. Here the tick hands the
  ping to the transport, the send reports a write error, and the callback returns from
  its \<open>catch\<close> handler: the ping is the only message of the tick.
\<close>

theorem tick_two_sends_counterexample:
  "ws openClient = Some openSocket \<and> readyState openSocket = OPEN \<and>
   \<not> 20000 - lastHeartbeat openClient > 45000 \<and>
   heartbeatTick openClient 20000 ''ping-1'' =
     (openClient,
      [SetTimeout 10000,
       WsSend (JObj [(''id'', JStr ''ping-1''), (''action'', JStr ''PING''), (''data'', JObj [])])],
      Some (AwaitPing 20000)) \<and>
   heartbeatResume openClient (AwaitPing 20000) (SendFailed (Error ''write EPIPE'')) =
     (openClient\<lparr>ws := Some (openSocket\<lparr>readyState := CLOSING\<rparr>)\<rparr>,
      [ClearTimeout, Log ERROR ''Heartbeat failed: write EPIPE'', WsTerminate], None)"
  by (simp add: heartbeatTick_def sendBegin_def heartbeatFailed_def terminateWs_def
      terminate_def pingPayload_def openClient_def openSocket_def sampleClient_def
      GrassClient_def)

text \<open>
  Claim C5, as the code has it. A tick that finds the transport open and the timestamp at
  most 45 seconds old hands the ping (the id \<open>uuidv4()\<close> returned, action PING, empty
  data) to the transport and awaits it. When that send has completed and the transport
  handle then refers to an open transport, the callback hands over the pong
  acknowledgment (id F3X, origin action PONG) and awaits it; when that send has completed
  too, it sets the timestamp to the clock reading taken at the start of the tick, and
  returns. When a send fails, or when no open transport is there for the pong
  acknowledgment, the callback sends nothing further, logs one error line, calls
  \<open>terminate()\<close> on the transport the handle refers to at that moment (on nothing when
  the handle is \<open>null\<close>), does not write the timestamp, and returns.
\<close>

theorem tick_sends_in_sequence:
  assumes "ws c = Some w" and "readyState w = OPEN" and "\<not> now - lastHeartbeat c > 45000"
  shows "heartbeatTick c now uuid =
           (c, [SetTimeout 10000, WsSend (pingPayload uuid)], Some (AwaitPing now)) \<and>
         (ws c1 = Some w1 \<and> readyState w1 = OPEN \<longrightarrow>
            heartbeatResume c1 (AwaitPing now) SendDone =
              (c1, [ClearTimeout, SetTimeout 10000, WsSend pongPayload], Some (AwaitPong now))) \<and>
         heartbeatResume c2 (AwaitPong now) SendDone =
           (c2\<lparr>lastHeartbeat := now\<rparr>, [ClearTimeout], None) \<and>
         (o1 \<noteq> SendDone \<or> ws c3 = None \<or> (\<exists>w3. ws c3 = Some w3 \<and> readyState w3 \<noteq> OPEN) \<longrightarrow>
            fst (heartbeatResume c3 (AwaitPing now) o1) = fst (terminateWs c3) \<and>
            lastHeartbeat (fst (heartbeatResume c3 (AwaitPing now) o1)) = lastHeartbeat c3 \<and>
            sends (fst (snd (heartbeatResume c3 (AwaitPing now) o1))) = [] \<and>
            length (errorLogs (fst (snd (heartbeatResume c3 (AwaitPing now) o1)))) = 1 \<and>
            (WsTerminate \<in> set (fst (snd (heartbeatResume c3 (AwaitPing now) o1))) \<longleftrightarrow>
               ws c3 \<noteq> None) \<and>
            snd (snd (heartbeatResume c3 (AwaitPing now) o1)) = None) \<and>
         (o2 \<noteq> SendDone \<longrightarrow>
            fst (heartbeatResume c4 (AwaitPong now) o2) = fst (terminateWs c4) \<and>
            lastHeartbeat (fst (heartbeatResume c4 (AwaitPong now) o2)) = lastHeartbeat c4 \<and>
            sends (fst (snd (heartbeatResume c4 (AwaitPong now) o2))) = [] \<and>
            length (errorLogs (fst (snd (heartbeatResume c4 (AwaitPong now) o2)))) = 1 \<and>
            (WsTerminate \<in> set (fst (snd (heartbeatResume c4 (AwaitPong now) o2))) \<longleftrightarrow>
               ws c4 \<noteq> None) \<and>
            snd (snd (heartbeatResume c4 (AwaitPong now) o2)) = None)"
proof -
  have a: "heartbeatTick c now uuid =
           (c, [SetTimeout 10000, WsSend (pingPayload uuid)], Some (AwaitPing now))"
    using assms by (simp add: heartbeatTick_def sendBegin_def)
  have b: "ws c1 = Some w1 \<and> readyState w1 = OPEN \<longrightarrow>
            heartbeatResume c1 (AwaitPing now) SendDone =
              (c1, [ClearTimeout, SetTimeout 10000, WsSend pongPayload], Some (AwaitPong now))"
    by (simp add: sendBegin_def)
  have d: "heartbeatResume c2 (AwaitPong now) SendDone =
           (c2\<lparr>lastHeartbeat := now\<rparr>, [ClearTimeout], None)"
    by simp
  have t: "lastHeartbeat (fst (terminateWs c')) = lastHeartbeat c' \<and>
           sends (snd (terminateWs c')) = [] \<and> errorLogs (snd (terminateWs c')) = [] \<and>
           (WsTerminate \<in> set (snd (terminateWs c')) \<longleftrightarrow> ws c' \<noteq> None)" for c'
    by (simp add: terminateWs_def split: option.splits)
  have e1: "o1 \<noteq> SendDone \<or> ws c3 = None \<or> (\<exists>w3. ws c3 = Some w3 \<and> readyState w3 \<noteq> OPEN) \<longrightarrow>
            fst (heartbeatResume c3 (AwaitPing now) o1) = fst (terminateWs c3) \<and>
            lastHeartbeat (fst (heartbeatResume c3 (AwaitPing now) o1)) = lastHeartbeat c3 \<and>
            sends (fst (snd (heartbeatResume c3 (AwaitPing now) o1))) = [] \<and>
            length (errorLogs (fst (snd (heartbeatResume c3 (AwaitPing now) o1)))) = 1 \<and>
            (WsTerminate \<in> set (fst (snd (heartbeatResume c3 (AwaitPing now) o1))) \<longleftrightarrow>
               ws c3 \<noteq> None) \<and>
            snd (snd (heartbeatResume c3 (AwaitPing now) o1)) = None"
    using t [of c3]
    by (cases o1) (auto simp: heartbeatFailed_eq sendBegin_def)
  have e2: "o2 \<noteq> SendDone \<longrightarrow>
            fst (heartbeatResume c4 (AwaitPong now) o2) = fst (terminateWs c4) \<and>
            lastHeartbeat (fst (heartbeatResume c4 (AwaitPong now) o2)) = lastHeartbeat c4 \<and>
            sends (fst (snd (heartbeatResume c4 (AwaitPong now) o2))) = [] \<and>
            length (errorLogs (fst (snd (heartbeatResume c4 (AwaitPong now) o2)))) = 1 \<and>
            (WsTerminate \<in> set (fst (snd (heartbeatResume c4 (AwaitPong now) o2))) \<longleftrightarrow>
               ws c4 \<noteq> None) \<and>
            snd (snd (heartbeatResume c4 (AwaitPong now) o2)) = None"
    using t [of c4]
    by (cases o2) (auto simp: heartbeatFailed_eq)
  from a b d e1 e2 show ?thesis by blast
qed

theorem tick_sends_in_sequence_witness:
  "ws openClient = Some openSocket \<and> readyState openSocket = OPEN \<and>
   \<not> 20000 - lastHeartbeat openClient > 45000 \<and>
   heartbeatTick openClient 20000 ''ping-1'' =
     (openClient,
      [SetTimeout 10000,
       WsSend (JObj [(''id'', JStr ''ping-1''), (''action'', JStr ''PING''), (''data'', JObj [])])],
      Some (AwaitPing 20000)) \<and>
   heartbeatResume openClient (AwaitPing 20000) SendDone =
     (openClient,
      [ClearTimeout, SetTimeout 10000,
       WsSend (JObj [(''id'', JStr ''F3X''), (''origin_action'', JStr ''PONG'')])],
      Some (AwaitPong 20000)) \<and>
   heartbeatResume openClient (AwaitPong 20000) SendDone =
     (openClient\<lparr>lastHeartbeat := 20000\<rparr>, [ClearTimeout], None) \<and>
   ws sampleClient = None \<and>
   heartbeatResume sampleClient (AwaitPing 20000) SendDone =
     (sampleClient, [ClearTimeout, Log ERROR ''Heartbeat failed: WebSocket not connected''],
      None) \<and>
   WsTerminate \<notin> set (fst (snd (heartbeatResume sampleClient (AwaitPing 20000) SendDone))) \<and>
   fst (heartbeatResume openClient (AwaitPong 20000) SendNoCallback) =
     openClient\<lparr>ws := Some (openSocket\<lparr>readyState := CLOSING\<rparr>)\<rparr> \<and>
   WsTerminate \<in> set (fst (snd (heartbeatResume openClient (AwaitPong 20000) SendNoCallback)))"
proof -
  have h1: "ws openClient = Some openSocket" using sample_fields by simp
  have h2: "readyState openSocket = OPEN" using sample_fields by simp
  have h3: "\<not> 20000 - lastHeartbeat openClient > 45000" using sample_fields by simp
  have n: "ws sampleClient = None" using sample_fields by simp
  have r: "heartbeatResume sampleClient (AwaitPing 20000) SendDone =
     (sampleClient, [ClearTimeout, Log ERROR ''Heartbeat failed: WebSocket not connected''],
      None)"
    using n by (simp add: sendBegin_def heartbeatFailed_def terminateWs_def)
  have tw: "fst (terminateWs openClient) =
              openClient\<lparr>ws := Some (openSocket\<lparr>readyState := CLOSING\<rparr>)\<rparr>"
    using h1 h2 by (simp add: terminateWs_def terminate_def)
  show ?thesis
    using h1 h2 h3 n r tw
      tick_sends_in_sequence [OF h1 h2 h3, of "''ping-1''" openClient openSocket openClient
        SendDone sampleClient SendNoCallback openClient]
    by (simp add: pingPayload_def pongPayload_def)
qed

text \<open>
  Claim C10. A tick that finds no transport handle, or a transport that is not open, does
  nothing: whatever the clock reads, the client object is unchanged (transport and
  timestamp included), no call is made, so no message is sent and nothing is terminated,
  and the callback has returned.
\<close>

theorem tick_idle_when_not_open:
  assumes "ws c = None \<or> (\<exists>w. ws c = Some w \<and> readyState w \<noteq> OPEN)"
  shows "heartbeatTick c now uuid = (c, [], None)"
  using assms by (auto simp: heartbeatTick_def)

theorem tick_idle_when_not_open_witness:
  "ws (sampleClient\<lparr>ws := Some (openSocket\<lparr>readyState := CLOSED\<rparr>)\<rparr>) =
     Some (openSocket\<lparr>readyState := CLOSED\<rparr>) \<and>
   readyState (openSocket\<lparr>readyState := CLOSED\<rparr>) \<noteq> OPEN \<and>
   900000 - lastHeartbeat (sampleClient\<lparr>ws := Some (openSocket\<lparr>readyState := CLOSED\<rparr>)\<rparr>) > 45000 \<and>
   heartbeatTick (sampleClient\<lparr>ws := Some (openSocket\<lparr>readyState := CLOSED\<rparr>)\<rparr>)
     900000 ''ping-1'' =
   (sampleClient\<lparr>ws := Some (openSocket\<lparr>readyState := CLOSED\<rparr>)\<rparr>, [], None)"
proof -
  have h: "ws (sampleClient\<lparr>ws := Some (openSocket\<lparr>readyState := CLOSED\<rparr>)\<rparr>) = None \<or>
           (\<exists>w. ws (sampleClient\<lparr>ws := Some (openSocket\<lparr>readyState := CLOSED\<rparr>)\<rparr>) = Some w \<and>
                readyState w \<noteq> OPEN)"
    by simp
  show ?thesis
    using sample_fields tick_idle_when_not_open [OF h, of 900000 "''ping-1''"]
    by simp
qed

subsection \<open>sendMessage\<close>

text \<open>
  Claim C6. Without a transport handle, or with a transport that is not open,
  \<open>sendMessage\<close> rejects at once with the error "WebSocket not connected": no timer is
  armed and nothing is handed to the transport. With an open transport whose send callback
  has not run when the 10 second timer fires, it rejects with "Send message timeout".
\<close>

theorem sendMessage_not_connected:
  "(ws c = None \<or> (\<exists>w. ws c = Some w \<and> readyState w \<noteq> OPEN) \<longrightarrow>
      sendMessage c p out = (Inl (Error ''WebSocket not connected''), [])) \<and>
   (ws c' = Some w' \<and> readyState w' = OPEN \<longrightarrow>
      sendMessage c' p SendNoCallback =
        (Inl (Error ''Send message timeout''), [SetTimeout 10000, WsSend p, TimerFired]))"
  by (auto simp: sendMessage_def)

theorem sendMessage_not_connected_witness:
  "ws sampleClient = None \<and>
   sendMessage sampleClient pongPayload SendDone = (Inl (Error ''WebSocket not connected''), []) \<and>
   ws openClient = Some openSocket \<and> readyState openSocket = OPEN \<and>
   sendMessage openClient pongPayload SendNoCallback =
     (Inl (Error ''Send message timeout''), [SetTimeout 10000, WsSend pongPayload, TimerFired])"
  using sample_fields
    sendMessage_not_connected [of sampleClient pongPayload SendDone openClient openSocket]
  by simp

subsection \<open>connect: timeout and transport error\<close>

text \<open>
  Claim C7. When neither the open event nor an error event comes before the connect timer
  of 30 seconds fires, \<open>connect\<close> terminates the socket (\<open>terminate()\<close>, not \<open>close()\<close>)
  and then rejects with "Connection timeout". When the transport reports an error before
  it opened, \<open>connect\<close> rejects with that error.
\<close>

theorem connect_timeout_terminates:
  assumes "proxyAgent lib c = Inr ag" and "connectionTimeout c = 30000"
  shows "connect lib c ConnectTimerFires =
           (Inl (Error ''Connection timeout''),
            c\<lparr>ws := Some \<lparr>ws_url = ''wss://proxy2.wynd.network:4650'', agent = ag,
                            readyState = CLOSING\<rparr>\<rparr>,
            [NewWebSocket ''wss://proxy2.wynd.network:4650'' ag 30000, SetTimeout 30000,
             WsOnce ''open'', WsOnce ''error'', TimerFired, WsTerminate]) \<and>
         connect lib c (ErrorEvent e) =
           (Inl e,
            c\<lparr>ws := Some \<lparr>ws_url = ''wss://proxy2.wynd.network:4650'', agent = ag,
                            readyState = CLOSING\<rparr>\<rparr>,
            [NewWebSocket ''wss://proxy2.wynd.network:4650'' ag 30000, SetTimeout 30000,
             WsOnce ''open'', WsOnce ''error'', ClearTimeout])"
  using assms by (simp add: connect_def terminate_def)

theorem connect_timeout_terminates_witness:
  "proxyAgent samplePlatform sampleClient = Inr None \<and>
   connectionTimeout sampleClient = 30000 \<and>
   fst (connect samplePlatform sampleClient ConnectTimerFires) = Inl (Error ''Connection timeout'') \<and>
   snd (snd (connect samplePlatform sampleClient ConnectTimerFires)) =
     [NewWebSocket ''wss://proxy2.wynd.network:4650'' None 30000, SetTimeout 30000,
      WsOnce ''open'', WsOnce ''error'', TimerFired, WsTerminate] \<and>
   fst (connect samplePlatform sampleClient (ErrorEvent (Error ''connect ECONNREFUSED''))) =
     Inl (Error ''connect ECONNREFUSED'')"
proof -
  have h1: "proxyAgent samplePlatform sampleClient = Inr None"
    by (simp add: proxyAgent_def sampleClient_def GrassClient_def)
  have h2: "connectionTimeout sampleClient = 30000"
    using sample_fields by simp
  show ?thesis
    using h1 h2 connect_timeout_terminates [OF h1 h2, of "Error ''connect ECONNREFUSED''"]
    by simp
qed

subsection \<open>cleanup\<close>

text \<open>
  Claim C8. \<open>cleanup()\<close> is defined on every client object and has no failing step. It
  clears the heartbeat timer when there is one; when there is a transport handle it
  removes all listeners, calls \<open>close()\<close> only if the transport is open, and clears the
  handle. After it, handle and timer are \<open>null\<close>, and a second call changes nothing and
  makes no call at all.
\<close>

theorem cleanup_idempotent:
  "cleanup (fst (cleanup c)) = (fst (cleanup c), []) \<and>
   ws (fst (cleanup c)) = None \<and>
   heartbeatInterval (fst (cleanup c)) = None \<and>
   snd (cleanup c) =
     (if heartbeatInterval c \<noteq> None then [ClearInterval] else []) @
     (case ws c of
        None \<Rightarrow> []
      | Some w \<Rightarrow> WsRemoveAllListeners # (if readyState w = OPEN then [WsClose] else []))"
  by (simp add: cleanup_def split: option.splits)

theorem cleanup_idempotent_witness:
  "cleanup openClient = (sampleClient, [ClearInterval, WsRemoveAllListeners, WsClose]) \<and>
   cleanup sampleClient = (sampleClient, [])"
proof -
  have h: "fst (cleanup openClient) = sampleClient"
    by (simp add: cleanup_def openClient_def sampleClient_def GrassClient_def)
  show ?thesis
    using h cleanup_idempotent [of openClient]
    by (cases "cleanup openClient") (simp add: openClient_def openSocket_def)
qed

subsection \<open>The authentication payload\<close>

text \<open>
  Claim C9. When the first message parses to an object with an \<open>id\<close> property and the
  transport is open, \<open>authenticate\<close> hands exactly one message to the transport: the
  payload whose \<open>id\<close> is the received id, whose \<open>origin_action\<close> is AUTH, and whose
  \<open>result\<close> carries the configured user id, the browser id of the client, the device
  type desktop and the clock reading in whole seconds. When the send completes,
  \<open>authenticate\<close> resolves.
\<close>

theorem authenticate_payload:
  assumes "ws c = Some w" and "readyState w = OPEN"
    and "jsonParse lib data = Inr (JObj fs)" and "map_of fs ''id'' = Some v"
  shows "sends (snd (authenticate lib c (MessageEvent data now out))) = [authPayload c v now] \<and>
         fst (authenticate lib c (MessageEvent data now SendDone)) = Inr () \<and>
         field (authPayload c v now) ''id'' = v \<and>
         field (authPayload c v now) ''origin_action'' = JStr ''AUTH'' \<and>
         field (field (authPayload c v now) ''result'') ''user_id'' = JStr (userId c) \<and>
         field (field (authPayload c v now) ''result'') ''browser_id'' = JStr (browserId c) \<and>
         field (field (authPayload c v now) ''result'') ''device_type'' = JStr ''desktop'' \<and>
         field (field (authPayload c v now) ''result'') ''timestamp'' = JNum (now div 1000)"
proof -
  have s: "sends (snd (authenticate lib c (MessageEvent data now out))) = [authPayload c v now]"
    using assms
    by (cases out) (simp_all add: authenticate_def sendAuthPayload_def sendMessage_def)
  have r: "fst (authenticate lib c (MessageEvent data now SendDone)) = Inr ()"
    using assms by (simp add: authenticate_def sendAuthPayload_def sendMessage_def)
  have f: "field (authPayload c v now) ''id'' = v \<and>
         field (authPayload c v now) ''origin_action'' = JStr ''AUTH'' \<and>
         field (field (authPayload c v now) ''result'') ''user_id'' = JStr (userId c) \<and>
         field (field (authPayload c v now) ''result'') ''browser_id'' = JStr (browserId c) \<and>
         field (field (authPayload c v now) ''result'') ''device_type'' = JStr ''desktop'' \<and>
         field (field (authPayload c v now) ''result'') ''timestamp'' = JNum (now div 1000)"
    by (simp add: authPayload_def)
  from s r f show ?thesis by blast
qed

theorem authenticate_payload_witness:
  \<open>ws openClient = Some openSocket \<and> readyState openSocket = OPEN \<and>
   jsonParse samplePlatform ''{"id":"abc123"}'' = Inr (JObj [(''id'', JStr ''abc123'')]) \<and>
   sends (snd (authenticate samplePlatform openClient
                 (MessageEvent ''{"id":"abc123"}'' 1700000000999 SendDone))) =
     [authPayload openClient (JStr ''abc123'') 1700000000999] \<and>
   field (authPayload openClient (JStr ''abc123'') 1700000000999) ''id'' = JStr ''abc123'' \<and>
   field (field (authPayload openClient (JStr ''abc123'') 1700000000999) ''result'') ''user_id'' =
     JStr ''user-1'' \<and>
   field (field (authPayload openClient (JStr ''abc123'') 1700000000999) ''result'')
     ''timestamp'' = JNum 1700000000\<close>
proof -
  have h1: "ws openClient = Some openSocket" using sample_fields by simp
  have h2: "readyState openSocket = OPEN" using sample_fields by simp
  have h3: \<open>jsonParse samplePlatform ''{"id":"abc123"}'' = Inr (JObj [(''id'', JStr ''abc123'')])\<close>
    by (simp add: samplePlatform_def)
  have h4: "map_of [(''id'', JStr ''abc123'')] ''id'' = Some (JStr ''abc123'')"
    by simp
  have u: "userId openClient = ''user-1''" using sample_fields by simp
  show ?thesis
    using h1 h2 h3 u authenticate_payload [OF h1 h2 h3 h4, of 1700000000999 SendDone]
    by simp
qed

end
